theory Spec2Isabelle
  imports Complex_Main "HOL-Library.Word" "HOL-Library.Multiset"
begin

section \<open>Values shared by both services\<close>

text \<open>
  Python values that travel as JSON. Python's \<^verbatim>\<open>None\<close> is \<open>JNull\<close>, so the test
  \<^verbatim>\<open>user is None\<close> of the order service is the test \<open>user = JNull\<close>.
\<close>

datatype json =
    JNull
  | JBool bool
  | JInt int
  | JStr string
  | JArr "json list"
  | JObj "(string \<times> json) list"

text \<open>
  A Python \<^verbatim>\<open>float\<close>: only the comparison with zero (\<^verbatim>\<open>Field(gt=0)\<close>) and copying
  are used by the services, so a float is a real number or one of the three special
  values. \<^verbatim>\<open>nan > 0\<close> is false in Python.
\<close>

datatype pyfloat = Finite real | PosInf | NegInf | NaN

fun float_gt0 :: "pyfloat \<Rightarrow> bool" where
  "float_gt0 (Finite r) = (0 < r)"
| "float_gt0 PosInf = True"
| "float_gt0 NegInf = False"
| "float_gt0 NaN = False"

text \<open>
  Exceptions of both services. \<open>HTTPException s d\<close> is FastAPI's exception with status
  \<open>s\<close> and detail \<open>d\<close>; \<open>RequestValidationError\<close> is what FastAPI raises when the body
  of a request does not validate against the handler's model; the others are raised by
  libraries and are not caught anywhere in the source.
\<close>

datatype exn =
    HTTPException int string
  | RequestValidationError
  | JSONDecodeError
  | InvalidId
  | DuplicateKeyError
  | ValidationError
  | TypeError

subsection \<open>bson.ObjectId\<close>

text \<open>
  An ObjectId is 12 bytes, here a 96-bit word; BSON orders ObjectIds bytewise, which is
  the unsigned order of the word. \<^verbatim>\<open>ObjectId(s)\<close> on a string follows the documented
  contract of the library: \<open>s\<close> must be 24 hexadecimal digits, otherwise
  \<^verbatim>\<open>InvalidId\<close> is raised. \<^verbatim>\<open>str(oid)\<close> is the 24 lower-case hexadecimal digits.
\<close>

type_synonym oid = "96 word"

definition is_hex :: "char \<Rightarrow> bool" where
  "is_hex c = (c \<in> set ''0123456789abcdefABCDEF'')"

definition hex_val :: "char \<Rightarrow> nat" where
  "hex_val c =
     (let n = (of_char c :: nat) in
      if 48 \<le> n \<and> n \<le> 57 then n - 48
      else if 97 \<le> n \<and> n \<le> 102 then n - 87
      else n - 55)"

definition ObjectId :: "string \<Rightarrow> exn + oid" where
  "ObjectId s =
     (if length s = 24 \<and> list_all is_hex s
      then Inr (of_nat (foldl (\<lambda>a c. 16 * a + hex_val c) 0 s))
      else Inl InvalidId)"

definition hex_char :: "nat \<Rightarrow> char" where
  "hex_char n = ''0123456789abcdef'' ! (n mod 16)"

fun hex_digits :: "nat \<Rightarrow> nat \<Rightarrow> string" where
  "hex_digits 0 v = []"
| "hex_digits (Suc k) v = hex_digits k (v div 16) @ [hex_char v]"

definition oid_str :: "oid \<Rightarrow> string" where
  "oid_str w = hex_digits 24 (unat w)"

subsection \<open>HTTP as seen by a client\<close>

text \<open>
  What \<^verbatim>\<open>await app.state.http.get(...)\<close> yields: the call raises
  \<^verbatim>\<open>httpx.RequestError\<close> (connection refused, timeout, DNS failure), or it returns a
  response with a status code and a body. \<open>json_body\<close> is what \<^verbatim>\<open>resp.json()\<close> returns:
  \<open>None\<close> when the body is not JSON, in which case \<^verbatim>\<open>resp.json()\<close> raises a decode
  error.
\<close>

record http_response =
  status_code :: int
  json_body :: "json option"

datatype http_result = RequestError | Response http_response

section \<open>user-service\<close>

record user_doc =
  user_oid :: oid
  user_name :: string
  user_email :: string

record UserOut =
  uo_id :: string
  uo_name :: string
  uo_email :: string

definition serialize_user :: "user_doc \<Rightarrow> UserOut" where
  "serialize_user doc =
     \<lparr>uo_id = oid_str (user_oid doc), uo_name = user_name doc, uo_email = user_email doc\<rparr>"

text \<open>
  \<^verbatim>\<open>get_user\<close> of the user service; \<open>users\<close> is the \<^verbatim>\<open>users\<close> collection and
  \<^verbatim>\<open>find_one({"_id": oid})\<close> is the first document with that identifier.
\<close>

definition get_user :: "user_doc list \<Rightarrow> string \<Rightarrow> exn + UserOut" where
  "get_user users uid =
     (case ObjectId uid of
        Inl _ \<Rightarrow> Inl (HTTPException 400 ''Invalid user id'')
      | Inr i \<Rightarrow>
          (case find (\<lambda>d. user_oid d = i) users of
             None \<Rightarrow> Inl (HTTPException 404 ''User not found'')
           | Some doc \<Rightarrow> Inr (serialize_user doc)))"

text \<open>
  How FastAPI turns the result of a handler into a response: a returned value is sent
  with the status the route declares (200 by default) and its JSON encoding; an
  \<open>HTTPException s d\<close> is sent with status \<open>s\<close> and the body \<^verbatim>\<open>{"detail": d}\<close>; a
  request that fails validation is answered 422; any other exception is answered 500
  with a plain-text body. The source installs no exception handler of its own.
\<close>

definition user_json :: "UserOut \<Rightarrow> json" where
  "user_json u =
     JObj [(''id'', JStr (uo_id u)), (''name'', JStr (uo_name u)), (''email'', JStr (uo_email u))]"

fun exn_status :: "exn \<Rightarrow> int" where
  "exn_status (HTTPException s d) = s"
| "exn_status RequestValidationError = 422"
| "exn_status e = 500"

definition response_status :: "int \<Rightarrow> exn + 'a \<Rightarrow> int" where
  "response_status declared r = (case r of Inl e \<Rightarrow> exn_status e | Inr v \<Rightarrow> declared)"

definition get_user_response :: "exn + UserOut \<Rightarrow> http_response" where
  "get_user_response r =
     (case r of
        Inr u \<Rightarrow> \<lparr>status_code = 200, json_body = Some (user_json u)\<rparr>
      | Inl (HTTPException s d) \<Rightarrow> \<lparr>status_code = s, json_body = Some (JObj [(''detail'', JStr d)])\<rparr>
      | Inl e \<Rightarrow> \<lparr>status_code = exn_status e, json_body = None\<rparr>)"

subsection \<open>From the request target to the handler\<close>

text \<open>
  The order service builds the request target by interpolation,
  \<^verbatim>\<open>f"/users/{user_id}"\<close>, with no escaping. By the generic URI syntax the path of a
  target ends at the first \<^verbatim>\<open>?\<close> (where the query starts) or \<^verbatim>\<open>#\<close> (the fragment),
  and the route \<^verbatim>\<open>/users/{user_id}\<close> of the user service matches a path
  \<^verbatim>\<open>/users/\<close> followed by one non-empty segment without \<^verbatim>\<open>/\<close>, which it hands to
  \<^verbatim>\<open>get_user\<close>. Percent-escapes and dot segments are not interpreted here: the
  model is exact for identifiers without \<^verbatim>\<open>%\<close> and \<^verbatim>\<open>.\<close>. A path that matches no
  route is answered by the router itself: with a redirect (307) when the path ends in
  \<^verbatim>\<open>/\<close> and matches the path of a route once its trailing slashes are removed
  (\<^verbatim>\<open>/users\<close>, the path of the POST route, or \<^verbatim>\<open>/users/{user_id}\<close>), and with 404
  and the body \<^verbatim>\<open>{"detail": "Not Found"}\<close> otherwise. The HTTP client of the order
  service does not follow redirects.
\<close>

definition request_target :: "string \<Rightarrow> string" where
  "request_target uid = ''/users/'' @ uid"

definition target_path :: "string \<Rightarrow> string" where
  "target_path t = takeWhile (\<lambda>c. c \<noteq> CHR ''?'' \<and> c \<noteq> CHR ''#'') t"

definition match_user_route :: "string \<Rightarrow> string option" where
  "match_user_route p =
     (if take 7 p = ''/users/'' \<and> drop 7 p \<noteq> [] \<and> CHR ''/'' \<notin> set (drop 7 p)
      then Some (drop 7 p) else None)"

definition strip_slashes :: "string \<Rightarrow> string" where
  "strip_slashes p = rev (dropWhile (\<lambda>c. c = CHR ''/'') (rev p))"

definition redirects :: "string \<Rightarrow> bool" where
  "redirects p =
     (p \<noteq> [] \<and> last p = CHR ''/''
      \<and> (strip_slashes p = ''/users'' \<or> match_user_route (strip_slashes p) \<noteq> None))"

definition user_service :: "user_doc list \<Rightarrow> string \<Rightarrow> http_result" where
  "user_service users t =
     (case match_user_route (target_path t) of
        Some uid \<Rightarrow> Response (get_user_response (get_user users uid))
      | None \<Rightarrow>
          if redirects (target_path t) then Response \<lparr>status_code = 307, json_body = None\<rparr>
          else Response \<lparr>status_code = 404, json_body = Some (JObj [(''detail'', JStr ''Not Found'')])\<rparr>)"

section \<open>order-service\<close>

record OrderItem =
  sku :: string
  qty :: int

record OrderCreate =
  user_id :: string
  items :: "OrderItem list"
  total_amount :: pyfloat

record new_order =
  new_user_id :: string
  new_items :: "OrderItem list"
  new_total :: pyfloat
  new_created_at :: nat

record order_doc =
  doc_id :: oid
  doc_user_id :: string
  doc_items :: "OrderItem list"
  doc_total :: pyfloat
  doc_created_at :: nat

record OrderOut =
  out_id :: string
  out_user_id :: string
  out_items :: "OrderItem list"
  out_total :: pyfloat
  out_created_at :: nat

text \<open>
  The constraints of the pydantic models: \<^verbatim>\<open>sku\<close> has 1 to 64 characters, \<^verbatim>\<open>qty\<close>
  lies in 1..1000, \<^verbatim>\<open>user_id\<close> and \<^verbatim>\<open>items\<close> are not empty, \<^verbatim>\<open>total\<close> is
  greater than 0. The field \<^verbatim>\<open>total\<close> is \<open>total_amount\<close> here. A timestamp is the
  reading of the clock; \<^verbatim>\<open>isoformat()\<close> renders it and is not modelled.
\<close>

definition OrderItem_valid :: "OrderItem \<Rightarrow> bool" where
  "OrderItem_valid i =
     (1 \<le> length (sku i) \<and> length (sku i) \<le> 64 \<and> 1 \<le> qty i \<and> qty i \<le> 1000)"

definition OrderCreate_valid :: "OrderCreate \<Rightarrow> bool" where
  "OrderCreate_valid p =
     (1 \<le> length (user_id p) \<and> 1 \<le> length (items p) \<and> list_all OrderItem_valid (items p)
      \<and> float_gt0 (total_amount p))"

subsection \<open>The world of one request\<close>

text \<open>
  The state the handlers act on: the \<^verbatim>\<open>orders\<close> collection in insertion order, the
  targets of the requests sent to the user service so far (oldest first), and the
  clock. The environment of one request: what the HTTP client yields for a target, the
  ObjectId the driver generates for the document of \<^verbatim>\<open>insert_one\<close>, and how long the
  HTTP call and each store operation take. Durations are natural numbers: the clock
  does not run backwards.
\<close>

record state =
  orders :: "order_doc list"
  requests :: "string list"
  now :: nat

record env =
  http_get :: "string \<Rightarrow> http_result"
  next_oid :: oid
  http_time :: nat
  db_time :: nat

subsection \<open>The store\<close>

definition with_id :: "oid \<Rightarrow> new_order \<Rightarrow> order_doc" where
  "with_id i d =
     \<lparr>doc_id = i, doc_user_id = new_user_id d, doc_items = new_items d,
      doc_total = new_total d, doc_created_at = new_created_at d\<rparr>"

text \<open>
  \<^verbatim>\<open>insert_one\<close> gives the document the generated identifier and appends it; the
  collection's unique index on \<^verbatim>\<open>_id\<close> refuses an identifier that is already there.
\<close>

definition insert_one :: "env \<Rightarrow> new_order \<Rightarrow> state \<Rightarrow> (exn + oid) \<times> state" where
  "insert_one e d st =
     (let st1 = st\<lparr>now := now st + db_time e\<rparr> in
      if next_oid e \<in> set (map doc_id (orders st)) then (Inl DuplicateKeyError, st1)
      else (Inr (next_oid e), st1\<lparr>orders := orders st @ [with_id (next_oid e) d]\<rparr>))"

definition find_one :: "env \<Rightarrow> oid \<Rightarrow> state \<Rightarrow> order_doc option \<times> state" where
  "find_one e i st = (find (\<lambda>d. doc_id d = i) (orders st), st\<lparr>now := now st + db_time e\<rparr>)"

text \<open>\<^verbatim>\<open>find({}).sort("_id", -1)\<close>: every document, by descending identifier.\<close>

definition find_sorted_desc :: "state \<Rightarrow> order_doc list" where
  "find_sorted_desc st = rev (sort_key doc_id (orders st))"

subsection \<open>Handlers\<close>

text \<open>
  \<^verbatim>\<open>_serialize_order\<close>: subscripting \<^verbatim>\<open>None\<close> raises \<^verbatim>\<open>TypeError\<close>; constructing
  \<^verbatim>\<open>OrderOut\<close> validates the items against \<^verbatim>\<open>OrderItem\<close>.
\<close>

definition serialize_order :: "order_doc option \<Rightarrow> exn + OrderOut" where
  "serialize_order r =
     (case r of
        None \<Rightarrow> Inl TypeError
      | Some doc \<Rightarrow>
          if list_all OrderItem_valid (doc_items doc)
          then Inr \<lparr>out_id = oid_str (doc_id doc), out_user_id = doc_user_id doc,
                    out_items = doc_items doc, out_total = doc_total doc,
                    out_created_at = doc_created_at doc\<rparr>
          else Inl ValidationError)"

text \<open>\<^verbatim>\<open>_fetch_user\<close> (the leading underscore is dropped).\<close>

definition fetch_user :: "env \<Rightarrow> string \<Rightarrow> state \<Rightarrow> (exn + json) \<times> state" where
  "fetch_user e uid st =
     (let st1 = st\<lparr>requests := requests st @ [request_target uid], now := now st + http_time e\<rparr> in
      case http_get e (request_target uid) of
        RequestError \<Rightarrow> (Inl (HTTPException 503 ''User service unavailable''), st1)
      | Response resp \<Rightarrow>
          if status_code resp = 404 then (Inr JNull, st1)
          else if status_code resp \<noteq> 200 then (Inl (HTTPException 502 ''User validation failed''), st1)
          else (case json_body resp of
                  None \<Rightarrow> (Inl JSONDecodeError, st1)
                | Some j \<Rightarrow> (Inr j, st1)))"

definition create_order :: "env \<Rightarrow> OrderCreate \<Rightarrow> state \<Rightarrow> (exn + OrderOut) \<times> state" where
  "create_order e payload st =
     (case fetch_user e (user_id payload) st of
        (Inl ex, st1) \<Rightarrow> (Inl ex, st1)
      | (Inr user, st1) \<Rightarrow>
          if user = JNull
          then (Inl (HTTPException 400 ''Cannot create order: user not found''), st1)
          else
            (case ObjectId (user_id payload) of
               Inl _ \<Rightarrow> (Inl (HTTPException 400 ''Invalid user id''), st1)
             | Inr _ \<Rightarrow>
                 (let doc = \<lparr>new_user_id = user_id payload, new_items = items payload,
                             new_total = total_amount payload, new_created_at = now st1\<rparr> in
                  case insert_one e doc st1 of
                    (Inl ex, st2) \<Rightarrow> (Inl ex, st2)
                  | (Inr inserted_id, st2) \<Rightarrow>
                      (case find_one e inserted_id st2 of
                         (created, st3) \<Rightarrow> (serialize_order created, st3)))))"

text \<open>
  \<^verbatim>\<open>POST /orders\<close> as FastAPI dispatches it: the body is validated against
  \<^verbatim>\<open>OrderCreate\<close> first, and the handler runs only on a body that validates.
\<close>

definition post_orders :: "env \<Rightarrow> OrderCreate \<Rightarrow> state \<Rightarrow> (exn + OrderOut) \<times> state" where
  "post_orders e body st =
     (if OrderCreate_valid body then create_order e body st
      else (Inl RequestValidationError, st))"

text \<open>The loop of \<^verbatim>\<open>list_orders\<close>: \<open>results\<close> grows by one record per document.\<close>

fun serialize_all :: "order_doc list \<Rightarrow> OrderOut list \<Rightarrow> exn + OrderOut list" where
  "serialize_all [] results = Inr results"
| "serialize_all (doc # docs) results =
     (case serialize_order (Some doc) of
        Inl ex \<Rightarrow> Inl ex
      | Inr out \<Rightarrow> serialize_all docs (results @ [out]))"

definition list_orders :: "env \<Rightarrow> state \<Rightarrow> (exn + OrderOut list) \<times> state" where
  "list_orders e st =
     (serialize_all (find_sorted_desc st) [], st\<lparr>now := now st + db_time e\<rparr>)"

section \<open>A concrete deployment\<close>

text \<open>
  The scenario used to run the model: the user service holds one user, Ann, whose
  identifier is \<open>ann_hex\<close>; the order is the one of the specification's example; the
  order service starts with an empty collection at time 100.
\<close>

definition ann_hex :: string where
  "ann_hex = ''507f1f77bcf86cd799439011''"

definition ann :: user_doc where
  "ann = \<lparr>user_oid = 0x507f1f77bcf86cd799439011, user_name = ''Ann'', user_email = ''ann@x.com''\<rparr>"

definition bob_hex :: string where
  "bob_hex = ''507f1f77bcf86cd799439012''"

definition ann_query :: string where
  "ann_query = ann_hex @ ''?x=1''"

definition ann_json :: json where
  "ann_json = user_json (serialize_user ann)"

definition widget_order :: "string \<Rightarrow> OrderCreate" where
  "widget_order uid =
     \<lparr>user_id = uid, items = [\<lparr>sku = ''WIDGET'', qty = 2\<rparr>], total_amount = Finite 19.98\<rparr>"

definition st0 :: state where
  "st0 = \<lparr>orders = [], requests = [], now = 100\<rparr>"

definition env_live :: "oid \<Rightarrow> env" where
  "env_live i = \<lparr>http_get = user_service [ann], next_oid = i, http_time = 5, db_time = 2\<rparr>"

definition env_of :: "http_result \<Rightarrow> env" where
  "env_of r = \<lparr>http_get = (\<lambda>t. r), next_oid = 1, http_time = 5, db_time = 2\<rparr>"

text \<open>
  Two ObjectIds of one process generated within one second, whose 3-byte counter lies
  just before and just after its wrap-around: \<open>oid_late\<close> is the one generated
  second, and it is the smaller one. \<open>st_wrapped\<close> is the state after placing a first
  order that gets \<open>oid_early\<close> and then a second that gets \<open>oid_late\<close>; \<open>st_ascending\<close>
  is the state after two orders whose identifiers ascend.
\<close>

definition oid_early :: oid where
  "oid_early = 0x65000000aaaaaaaaaaffffff"

definition oid_late :: oid where
  "oid_late = 0x65000000aaaaaaaaaa000000"

definition st_wrapped :: state where
  "st_wrapped =
     snd (post_orders (env_live oid_late) (widget_order ann_hex)
       (snd (post_orders (env_live oid_early) (widget_order ann_hex) st0)))"

definition st_ascending :: state where
  "st_ascending =
     snd (post_orders (env_live oid_early) (widget_order ann_hex)
       (snd (post_orders (env_live oid_late) (widget_order ann_hex) st0)))"

definition widget_doc :: "oid \<Rightarrow> nat \<Rightarrow> order_doc" where
  "widget_doc i t =
     \<lparr>doc_id = i, doc_user_id = ann_hex, doc_items = [\<lparr>sku = ''WIDGET'', qty = 2\<rparr>],
      doc_total = Finite 19.98, doc_created_at = t\<rparr>"

definition widget_out :: "oid \<Rightarrow> nat \<Rightarrow> OrderOut" where
  "widget_out i t =
     \<lparr>out_id = oid_str i, out_user_id = ann_hex, out_items = [\<lparr>sku = ''WIDGET'', qty = 2\<rparr>],
      out_total = Finite 19.98, out_created_at = t\<rparr>"

section \<open>Basic facts\<close>

lemma fetch_user_orders: "orders (snd (fetch_user e uid st)) = orders st"
  by (simp add: fetch_user_def Let_def split: http_result.splits option.splits)

lemma invalid_body_not_valid:
  assumes "user_id p = [] \<or> items p = []
           \<or> (\<exists>i \<in> set (items p). qty i < 1 \<or> 1000 < qty i \<or> length (sku i) < 1 \<or> 64 < length (sku i))
           \<or> \<not> float_gt0 (total_amount p)"
  shows "\<not> OrderCreate_valid p"
proof
  assume v: "OrderCreate_valid p"
  then have all: "\<And>i. i \<in> set (items p) \<Longrightarrow> OrderItem_valid i"
    by (simp add: OrderCreate_valid_def list_all_iff)
  from assms consider "user_id p = []" | "items p = []"
    | i where "i \<in> set (items p)" "qty i < 1 \<or> 1000 < qty i \<or> length (sku i) < 1 \<or> 64 < length (sku i)"
    | "\<not> float_gt0 (total_amount p)"
    by blast
  then show False
  proof cases
    case 1
    with v show False by (simp add: OrderCreate_valid_def)
  next
    case 2
    with v show False by (simp add: OrderCreate_valid_def)
  next
    case 3
    from all [OF 3(1)] 3(2) show False
      unfolding OrderItem_valid_def by linarith
  next
    case 4
    with v show False by (simp add: OrderCreate_valid_def)
  qed
qed

lemma widget_order_valid: "OrderCreate_valid (widget_order (c # cs))"
  by (simp add: OrderCreate_valid_def OrderItem_valid_def widget_order_def)

section \<open>Structurally invalid input\<close>

text \<open>
  Claim C4. A body of \<^verbatim>\<open>POST /orders\<close> with an empty user identifier, an empty item
  list, an item whose quantity is outside 1..1000 or whose SKU length is outside 1..64,
  or a total that is not greater than 0 is rejected with the request-validation error,
  and the state is returned as it was: no request is sent to the user service and
  nothing is written to the store.
\<close>

theorem invalid_input_makes_no_call:
  assumes "user_id p = [] \<or> items p = []
           \<or> (\<exists>i \<in> set (items p). qty i < 1 \<or> 1000 < qty i \<or> length (sku i) < 1 \<or> 64 < length (sku i))
           \<or> \<not> float_gt0 (total_amount p)"
  shows "fst (post_orders e p st) = Inl RequestValidationError
         \<and> requests (snd (post_orders e p st)) = requests st
         \<and> snd (post_orders e p st) = st"
proof -
  have "\<not> OrderCreate_valid p"
    using assms by (rule invalid_body_not_valid)
  then show ?thesis
    by (simp add: post_orders_def)
qed

theorem invalid_input_makes_no_call_witness:
  "items (widget_order ann_hex\<lparr>items := []\<rparr>) = []
   \<and> fst (post_orders (env_live 1) (widget_order ann_hex\<lparr>items := []\<rparr>) st0) = Inl RequestValidationError
   \<and> requests (snd (post_orders (env_live 1) (widget_order ann_hex\<lparr>items := []\<rparr>) st0)) = []
   \<and> snd (post_orders (env_live 1) (widget_order ann_hex\<lparr>items := []\<rparr>) st0) = st0"
proof -
  have h: "items (widget_order ann_hex\<lparr>items := []\<rparr>) = []"
    by simp
  have r: "requests st0 = []"
    by (simp add: st0_def)
  from invalid_input_makes_no_call [of "widget_order ann_hex\<lparr>items := []\<rparr>" "env_live 1" st0] h r
  show ?thesis by simp
qed

section \<open>Evaluating the deployment\<close>

lemma ObjectId_ann_hex: "ObjectId ann_hex = Inr 0x507f1f77bcf86cd799439011"
  by (simp add: ObjectId_def ann_hex_def is_hex_def hex_val_def)

lemma ObjectId_too_long: "length s \<noteq> 24 \<Longrightarrow> ObjectId s = Inl InvalidId"
  by (simp add: ObjectId_def)

lemma target_path_ann_query: "target_path (request_target (ann_hex @ ''?x=1'')) = request_target ann_hex"
  by (simp add: target_path_def request_target_def ann_hex_def)

lemma target_path_ann: "target_path (request_target ann_hex) = request_target ann_hex"
  by (simp add: target_path_def request_target_def ann_hex_def)

lemma match_user_route_ann: "match_user_route (request_target ann_hex) = Some ann_hex"
  by (simp add: match_user_route_def request_target_def ann_hex_def)

lemma get_user_ann: "get_user [ann] ann_hex = Inr (serialize_user ann)"
  by (simp add: get_user_def ObjectId_ann_hex ann_def)

lemma user_service_ann:
  "user_service [ann] (request_target ann_hex) = Response \<lparr>status_code = 200, json_body = Some ann_json\<rparr>"
  by (simp add: user_service_def target_path_ann match_user_route_ann get_user_ann
      get_user_response_def ann_json_def)

lemma user_service_ann_query:
  "user_service [ann] (request_target (ann_hex @ ''?x=1'')) = Response \<lparr>status_code = 200, json_body = Some ann_json\<rparr>"
  by (simp add: user_service_def target_path_ann_query match_user_route_ann get_user_ann
      get_user_response_def ann_json_def)

lemma ann_json_not_null: "ann_json \<noteq> JNull"
  by (simp add: ann_json_def user_json_def)

section \<open>The lookup and the handler, step by step\<close>

lemma fetch_user_state:
  "snd (fetch_user e uid st) =
     st\<lparr>requests := requests st @ [request_target uid], now := now st + http_time e\<rparr>"
  by (simp add: fetch_user_def Let_def split: http_result.splits option.splits)

lemma fetch_user_cases:
  "fst (fetch_user e uid st) =
     (case http_get e (request_target uid) of
        RequestError \<Rightarrow> Inl (HTTPException 503 ''User service unavailable'')
      | Response resp \<Rightarrow>
          if status_code resp = 404 then Inr JNull
          else if status_code resp \<noteq> 200 then Inl (HTTPException 502 ''User validation failed'')
          else (case json_body resp of None \<Rightarrow> Inl JSONDecodeError | Some j \<Rightarrow> Inr j))"
  by (simp add: fetch_user_def Let_def split: http_result.splits option.splits)

lemma create_order_lookup_error:
  assumes "fst (fetch_user e (user_id p) st) = Inl ex"
  shows "create_order e p st = (Inl ex, snd (fetch_user e (user_id p) st))"
  using assms by (cases "fetch_user e (user_id p) st") (simp add: create_order_def)

lemma create_order_not_found:
  assumes "fst (fetch_user e (user_id p) st) = Inr JNull"
  shows "create_order e p st =
           (Inl (HTTPException 400 ''Cannot create order: user not found''), snd (fetch_user e (user_id p) st))"
  using assms by (cases "fetch_user e (user_id p) st") (simp add: create_order_def)

lemma create_order_invalid_id:
  assumes "fst (fetch_user e (user_id p) st) = Inr u" and "u \<noteq> JNull"
    and "ObjectId (user_id p) = Inl x"
  shows "create_order e p st =
           (Inl (HTTPException 400 ''Invalid user id''), snd (fetch_user e (user_id p) st))"
  using assms by (cases "fetch_user e (user_id p) st") (simp add: create_order_def)

lemma create_order_duplicate:
  assumes g: "fst (fetch_user e (user_id p) st) = Inr u" and u: "u \<noteq> JNull"
    and i: "ObjectId (user_id p) = Inr i" and dup: "next_oid e \<in> doc_id ` set (orders st)"
  shows "fst (create_order e p st) = Inl DuplicateKeyError
         \<and> orders (snd (create_order e p st)) = orders st"
proof -
  obtain b where f: "fetch_user e (user_id p) st = (Inr u, b)"
    using g by (cases "fetch_user e (user_id p) st") simp
  have b: "orders b = orders st"
    using fetch_user_orders [of e "user_id p" st] f by simp
  show ?thesis
    using u i dup by (simp add: create_order_def f insert_one_def Let_def b)
qed

lemma find_appended:
  assumes "i \<notin> doc_id ` set ds"
  shows "find (\<lambda>d. doc_id d = i) (ds @ [with_id i n]) = Some (with_id i n)"
  using assms by (induction ds) (auto simp: with_id_def)

lemma create_order_inserts:
  assumes g: "fst (fetch_user e (user_id p) st) = Inr u" and u: "u \<noteq> JNull"
    and i: "ObjectId (user_id p) = Inr i" and fresh: "next_oid e \<notin> doc_id ` set (orders st)"
  shows "create_order e p st =
     (serialize_order (Some (with_id (next_oid e)
         \<lparr>new_user_id = user_id p, new_items = items p, new_total = total_amount p,
          new_created_at = now st + http_time e\<rparr>)),
      st\<lparr>requests := requests st @ [request_target (user_id p)],
         now := now st + http_time e + db_time e + db_time e,
         orders := orders st @ [with_id (next_oid e)
           \<lparr>new_user_id = user_id p, new_items = items p, new_total = total_amount p,
            new_created_at = now st + http_time e\<rparr>]\<rparr>)"
proof -
  let ?b = "st\<lparr>requests := requests st @ [request_target (user_id p)], now := now st + http_time e\<rparr>"
  have f: "fetch_user e (user_id p) st = (Inr u, ?b)"
    using g fetch_user_state [of e "user_id p" st]
    by (cases "fetch_user e (user_id p) st") simp
  show ?thesis
    using u i fresh
    by (simp add: create_order_def f insert_one_def find_one_def Let_def find_appended)
qed

lemma ObjectId_bob_hex: "ObjectId bob_hex = Inr 0x507f1f77bcf86cd799439012"
  by (simp add: ObjectId_def bob_hex_def is_hex_def hex_val_def)

lemma user_service_bob:
  "user_service [ann] (request_target bob_hex) =
     Response \<lparr>status_code = 404, json_body = Some (JObj [(''detail'', JStr ''User not found'')])\<rparr>"
proof -
  have "target_path (request_target bob_hex) = request_target bob_hex"
    by (simp add: target_path_def request_target_def bob_hex_def)
  moreover have "match_user_route (request_target bob_hex) = Some bob_hex"
    by (simp add: match_user_route_def request_target_def bob_hex_def)
  moreover have "get_user [ann] bob_hex = Inl (HTTPException 404 ''User not found'')"
    by (simp add: get_user_def ObjectId_bob_hex ann_def)
  ultimately show ?thesis
    by (simp add: user_service_def get_user_response_def)
qed

lemma widget_order_fields:
  "user_id (widget_order uid) = uid"
  "items (widget_order uid) = [\<lparr>sku = ''WIDGET'', qty = 2\<rparr>]"
  "total_amount (widget_order uid) = Finite 19.98"
  by (simp_all add: widget_order_def)

lemma ann_hex_valid: "OrderCreate_valid (widget_order ann_hex)"
  by (simp add: ann_hex_def widget_order_valid)

lemma bob_hex_valid: "OrderCreate_valid (widget_order bob_hex)"
  by (simp add: bob_hex_def widget_order_valid)

lemma fetch_user_down:
  "fst (fetch_user (env_of RequestError) uid st) = Inl (HTTPException 503 ''User service unavailable'')"
  by (simp add: fetch_user_cases env_of_def)

lemma fetch_user_live_ann: "fst (fetch_user (env_live i) ann_hex st) = Inr ann_json"
  by (simp add: fetch_user_cases env_live_def user_service_ann)

section \<open>Persisting only after the lookup found the user\<close>

text \<open>
  Claim C2. The collection changes only if the body validated and the lookup returned a
  user for the body's user identifier. When the lookup raises 503 (user service
  unreachable), returns \<^verbatim>\<open>None\<close> (not found) or raises 502 (unexpected status), the
  handler answers 503, 400 "user not found" and 502 respectively, and the collection
  is what it was.
\<close>

theorem order_persisted_only_if_found:
  "(orders (snd (post_orders e p st)) \<noteq> orders st \<longrightarrow>
      OrderCreate_valid p \<and> (\<exists>u. fst (fetch_user e (user_id p) st) = Inr u \<and> u \<noteq> JNull))
   \<and> (OrderCreate_valid p \<longrightarrow>
        fst (fetch_user e (user_id p) st) = Inl (HTTPException 503 ''User service unavailable'') \<longrightarrow>
        fst (post_orders e p st) = Inl (HTTPException 503 ''User service unavailable'')
        \<and> orders (snd (post_orders e p st)) = orders st)
   \<and> (OrderCreate_valid p \<longrightarrow>
        fst (fetch_user e (user_id p) st) = Inr JNull \<longrightarrow>
        fst (post_orders e p st) = Inl (HTTPException 400 ''Cannot create order: user not found'')
        \<and> orders (snd (post_orders e p st)) = orders st)
   \<and> (OrderCreate_valid p \<longrightarrow>
        fst (fetch_user e (user_id p) st) = Inl (HTTPException 502 ''User validation failed'') \<longrightarrow>
        fst (post_orders e p st) = Inl (HTTPException 502 ''User validation failed'')
        \<and> orders (snd (post_orders e p st)) = orders st)"
proof -
  let ?g = "fst (fetch_user e (user_id p) st)"
  have err: "\<And>ex. OrderCreate_valid p \<Longrightarrow> ?g = Inl ex \<Longrightarrow>
      fst (post_orders e p st) = Inl ex \<and> orders (snd (post_orders e p st)) = orders st"
    by (simp add: post_orders_def create_order_lookup_error fetch_user_orders)
  have nf: "OrderCreate_valid p \<Longrightarrow> ?g = Inr JNull \<Longrightarrow>
      fst (post_orders e p st) = Inl (HTTPException 400 ''Cannot create order: user not found'')
      \<and> orders (snd (post_orders e p st)) = orders st"
    by (simp add: post_orders_def create_order_not_found fetch_user_orders)
  have only: "OrderCreate_valid p \<and> (\<exists>u. ?g = Inr u \<and> u \<noteq> JNull)"
    if ch: "orders (snd (post_orders e p st)) \<noteq> orders st"
  proof -
    have v: "OrderCreate_valid p"
      using ch by (cases "OrderCreate_valid p") (simp_all add: post_orders_def)
    show ?thesis
    proof (cases ?g)
      case (Inl ex)
      with err [OF v] ch show ?thesis by simp
    next
      case (Inr u)
      with nf [OF v] ch have "u \<noteq> JNull" by auto
      with v Inr show ?thesis by simp
    qed
  qed
  from err nf only show ?thesis by blast
qed

theorem order_persisted_only_if_found_witness:
  "OrderCreate_valid (widget_order ann_hex)
   \<and> fst (fetch_user (env_of RequestError) (user_id (widget_order ann_hex)) st0)
       = Inl (HTTPException 503 ''User service unavailable'')
   \<and> fst (post_orders (env_of RequestError) (widget_order ann_hex) st0)
       = Inl (HTTPException 503 ''User service unavailable'')
   \<and> orders (snd (post_orders (env_of RequestError) (widget_order ann_hex) st0)) = orders st0"
  using order_persisted_only_if_found [of "env_of RequestError" "widget_order ann_hex" st0]
    ann_hex_valid fetch_user_down [of "user_id (widget_order ann_hex)" st0]
  by simp

section \<open>The status of a rejected body\<close>




section \<open>A user the directory does not know\<close>

text \<open>
  Claim C6. For a body that validates and a user identifier for which the user service
  answers 404, \<^verbatim>\<open>POST /orders\<close> raises the HTTP exception with status 400 and the
  detail "Cannot create order: user not found", nothing is persisted, and this error
  differs from the error of every structurally invalid body.
\<close>

theorem user_not_found_rejected:
  assumes "OrderCreate_valid p"
    and "http_get e (request_target (user_id p)) = Response r"
    and "status_code r = 404"
  shows "fst (post_orders e p st) = Inl (HTTPException 400 ''Cannot create order: user not found'')
         \<and> response_status 201 (fst (post_orders e p st)) = 400
         \<and> orders (snd (post_orders e p st)) = orders st
         \<and> (\<forall>e' q st'. \<not> OrderCreate_valid q \<longrightarrow>
               fst (post_orders e' q st') = Inl RequestValidationError
               \<and> fst (post_orders e' q st') \<noteq> fst (post_orders e p st))"
proof -
  have g: "fst (fetch_user e (user_id p) st) = Inr JNull"
    using assms(2,3) by (simp add: fetch_user_cases)
  have r: "fst (post_orders e p st) = Inl (HTTPException 400 ''Cannot create order: user not found'')"
    using assms(1) g by (simp add: post_orders_def create_order_not_found)
  have s: "orders (snd (post_orders e p st)) = orders st"
    using assms(1) g by (simp add: post_orders_def create_order_not_found fetch_user_orders)
  have d: "fst (post_orders e' q st') = Inl RequestValidationError
           \<and> fst (post_orders e' q st') \<noteq> fst (post_orders e p st)"
    if "\<not> OrderCreate_valid q" for e' q st'
    using that r by (simp add: post_orders_def)
  from r s d show ?thesis
    by (simp add: response_status_def)
qed

theorem user_not_found_rejected_witness:
  "OrderCreate_valid (widget_order bob_hex)
   \<and> http_get (env_live 1) (request_target (user_id (widget_order bob_hex)))
       = Response \<lparr>status_code = 404, json_body = Some (JObj [(''detail'', JStr ''User not found'')])\<rparr>
   \<and> fst (post_orders (env_live 1) (widget_order bob_hex) st0)
       = Inl (HTTPException 400 ''Cannot create order: user not found'')
   \<and> response_status 201 (fst (post_orders (env_live 1) (widget_order bob_hex) st0)) = 400
   \<and> orders (snd (post_orders (env_live 1) (widget_order bob_hex) st0)) = orders st0
   \<and> fst (post_orders (env_live 1) (widget_order bob_hex\<lparr>items := []\<rparr>) st0)
       \<noteq> fst (post_orders (env_live 1) (widget_order bob_hex) st0)"
proof -
  let ?r = "\<lparr>status_code = 404, json_body = Some (JObj [(''detail'', JStr ''User not found'')])\<rparr>"
  have h: "http_get (env_live 1) (request_target (user_id (widget_order bob_hex))) = Response ?r"
    by (simp add: env_live_def widget_order_fields user_service_bob)
  have c: "status_code ?r = 404"
    by simp
  have n: "\<not> OrderCreate_valid (widget_order bob_hex\<lparr>items := []\<rparr>)"
    by (simp add: OrderCreate_valid_def)
  from user_not_found_rejected [OF bob_hex_valid h c, of st0] n h bob_hex_valid
  show ?thesis by blast
qed

section \<open>The user lookup\<close>




section \<open>Identifiers that reach the user service unchanged\<close>








section \<open>Asking twice\<close>



section \<open>An identifier with a query suffix\<close>

lemma ObjectId_ann_query: "ObjectId ann_query = Inl InvalidId"
  by (simp add: ann_query_def ann_hex_def ObjectId_too_long)

lemma fetch_user_live_ann_query: "fst (fetch_user (env_live i) ann_query st) = Inr ann_json"
  by (simp add: fetch_user_cases env_live_def ann_query_def user_service_ann_query)

lemma ann_query_valid: "OrderCreate_valid (widget_order ann_query)"
  by (simp add: ann_query_def ann_hex_def widget_order_valid)

lemma create_order_ann_query:
  "create_order (env_live i) (widget_order ann_query) st =
     (Inl (HTTPException 400 ''Invalid user id''), snd (fetch_user (env_live i) ann_query st))"
  using create_order_invalid_id [of "env_live i" "widget_order ann_query" st ann_json InvalidId]
  by (simp add: widget_order_fields fetch_user_live_ann_query ann_json_not_null ObjectId_ann_query)

section \<open>A placed order\<close>

lemma serialize_order_valid:
  assumes "list_all OrderItem_valid (doc_items doc)"
  shows "serialize_order (Some doc) =
     Inr \<lparr>out_id = oid_str (doc_id doc), out_user_id = doc_user_id doc,
          out_items = doc_items doc, out_total = doc_total doc,
          out_created_at = doc_created_at doc\<rparr>"
  using assms by (simp add: serialize_order_def)

text \<open>
  Claim C3, as amended. For a body that validates, a lookup that returned a user, a user
  identifier that parses as an ObjectId and a generated identifier that is not yet in
  the collection, \<^verbatim>\<open>POST /orders\<close> returns a record with the body's user identifier,
  items and total, the string of the generated identifier, and a timestamp between the
  clock at the start of the call and the clock at its return; exactly one document is
  appended to the collection, and the returned record is the serialisation of the
  document found under the generated identifier afterwards.
\<close>

theorem place_order_success:
  assumes v: "OrderCreate_valid p"
    and g: "fst (fetch_user e (user_id p) st) = Inr u" and u: "u \<noteq> JNull"
    and i: "ObjectId (user_id p) = Inr i"
    and fresh: "next_oid e \<notin> doc_id ` set (orders st)"
  shows "\<exists>out doc. fst (post_orders e p st) = Inr out
      \<and> out_user_id out = user_id p \<and> out_items out = items p \<and> out_total out = total_amount p
      \<and> out_id out = oid_str (next_oid e)
      \<and> now st \<le> out_created_at out \<and> out_created_at out \<le> now (snd (post_orders e p st))
      \<and> orders (snd (post_orders e p st)) = orders st @ [doc]
      \<and> doc_id doc = next_oid e
      \<and> find (\<lambda>d. doc_id d = next_oid e) (orders (snd (post_orders e p st))) = Some doc
      \<and> serialize_order (Some doc) = Inr out"
proof -
  let ?n = "\<lparr>new_user_id = user_id p, new_items = items p, new_total = total_amount p,
             new_created_at = now st + http_time e\<rparr>"
  let ?doc = "with_id (next_oid e) ?n"
  let ?out = "\<lparr>out_id = oid_str (next_oid e), out_user_id = user_id p, out_items = items p,
               out_total = total_amount p, out_created_at = now st + http_time e\<rparr>"
  have items_ok: "list_all OrderItem_valid (doc_items ?doc)"
    using v by (simp add: OrderCreate_valid_def with_id_def)
  have ser: "serialize_order (Some ?doc) = Inr ?out"
    using serialize_order_valid [OF items_ok] by (simp add: with_id_def)
  have run: "post_orders e p st =
      (Inr ?out, st\<lparr>requests := requests st @ [request_target (user_id p)],
         now := now st + http_time e + db_time e + db_time e,
         orders := orders st @ [?doc]\<rparr>)"
    using v create_order_inserts [OF g u i fresh] ser by (simp add: post_orders_def)
  have found: "find (\<lambda>d. doc_id d = next_oid e) (orders st @ [?doc]) = Some ?doc"
    using fresh by (rule find_appended)
  have id: "doc_id ?doc = next_oid e"
    by (simp add: with_id_def)
  show ?thesis
    apply (rule exI [of _ ?out])
    apply (rule exI [of _ ?doc])
    using run ser found id by simp
qed

theorem place_order_success_witness:
  "OrderCreate_valid (widget_order ann_hex)
   \<and> fst (fetch_user (env_live 7) (user_id (widget_order ann_hex)) st0) = Inr ann_json
   \<and> ann_json \<noteq> JNull
   \<and> ObjectId (user_id (widget_order ann_hex)) = Inr 0x507f1f77bcf86cd799439011
   \<and> next_oid (env_live 7) \<notin> doc_id ` set (orders st0)
   \<and> (\<exists>out doc. fst (post_orders (env_live 7) (widget_order ann_hex) st0) = Inr out
      \<and> out_user_id out = ann_hex \<and> out_items out = [\<lparr>sku = ''WIDGET'', qty = 2\<rparr>]
      \<and> out_total out = Finite 19.98
      \<and> out_id out = oid_str 7
      \<and> 100 \<le> out_created_at out
      \<and> out_created_at out \<le> now (snd (post_orders (env_live 7) (widget_order ann_hex) st0))
      \<and> orders (snd (post_orders (env_live 7) (widget_order ann_hex) st0)) = [doc]
      \<and> doc_id doc = 7
      \<and> find (\<lambda>d. doc_id d = 7) (orders (snd (post_orders (env_live 7) (widget_order ann_hex) st0))) = Some doc
      \<and> serialize_order (Some doc) = Inr out)"
proof -
  have g: "fst (fetch_user (env_live 7) (user_id (widget_order ann_hex)) st0) = Inr ann_json"
    by (simp add: widget_order_fields fetch_user_live_ann)
  have i: "ObjectId (user_id (widget_order ann_hex)) = Inr 0x507f1f77bcf86cd799439011"
    by (simp add: widget_order_fields ObjectId_ann_hex)
  have fresh: "next_oid (env_live 7) \<notin> doc_id ` set (orders st0)"
    by (simp add: st0_def)
  have n: "next_oid (env_live 7) = 7" "orders st0 = []" "now st0 = 100"
    by (simp_all add: env_live_def st0_def)
  from place_order_success [OF ann_hex_valid g ann_json_not_null i fresh]
  show ?thesis
    using g i fresh ann_hex_valid ann_json_not_null
    by (simp add: n widget_order_fields)
qed

theorem place_order_success_counterexample:
  "OrderCreate_valid (widget_order ann_query)
   \<and> fst (fetch_user (env_live 7) (user_id (widget_order ann_query)) st0) = Inr ann_json
   \<and> ann_json \<noteq> JNull
   \<and> fst (post_orders (env_live 7) (widget_order ann_query) st0) = Inl (HTTPException 400 ''Invalid user id'')
   \<and> orders (snd (post_orders (env_live 7) (widget_order ann_query) st0)) = orders st0"
  by (simp add: ann_query_valid widget_order_fields fetch_user_live_ann_query ann_json_not_null
      post_orders_def create_order_ann_query fetch_user_orders)

section \<open>Paths that match no route\<close>

lemma user_service_trailing_slash: "user_service [] (request_target ''abc/'') = Response \<lparr>status_code = 307, json_body = None\<rparr>"
  by (simp add: user_service_def request_target_def target_path_def match_user_route_def redirects_def strip_slashes_def)

lemma user_service_empty_segment: "user_service [] (request_target ''?a'') = Response \<lparr>status_code = 307, json_body = None\<rparr>"
  by (simp add: user_service_def request_target_def target_path_def match_user_route_def redirects_def strip_slashes_def)

lemma user_service_two_segments: "status_code (case user_service [] (request_target ''a/b'') of Response r \<Rightarrow> r) = 404"
  by (simp add: user_service_def request_target_def target_path_def match_user_route_def redirects_def strip_slashes_def)

section \<open>Statuses of the user service\<close>






section \<open>An identifier that is not an ObjectId\<close>







section \<open>The check after the lookup\<close>







section \<open>Listing orders\<close>

lemma serialize_all_valid:
  assumes "\<forall>d \<in> set ds. list_all OrderItem_valid (doc_items d)"
  shows "\<exists>outs. serialize_all ds acc = Inr (acc @ outs)
           \<and> map Inr outs = map (\<lambda>d. serialize_order (Some d)) ds"
  using assms
proof (induction ds arbitrary: acc)
  case Nil
  then show ?case by simp
next
  case (Cons d ds)
  let ?o = "\<lparr>out_id = oid_str (doc_id d), out_user_id = doc_user_id d,
             out_items = doc_items d, out_total = doc_total d,
             out_created_at = doc_created_at d\<rparr>"
  from Cons.prems have d: "serialize_order (Some d) = Inr ?o"
    by (simp add: serialize_order_valid)
  from Cons.prems have "\<forall>x \<in> set ds. list_all OrderItem_valid (doc_items x)"
    by simp
  from Cons.IH [OF this, of "acc @ [?o]"]
  obtain outs where o: "serialize_all ds (acc @ [?o]) = Inr ((acc @ [?o]) @ outs)"
    and m: "map Inr outs = map (\<lambda>d. serialize_order (Some d)) ds"
    by blast
  have "serialize_all (d # ds) acc = Inr (acc @ (?o # outs))"
    using d o by simp
  moreover have "map Inr (?o # outs) = map (\<lambda>d. serialize_order (Some d)) (d # ds)"
    using d m by simp
  ultimately show ?case by blast
qed

lemma find_sorted_desc_mset: "mset (find_sorted_desc st) = mset (orders st)"
  by (simp add: find_sorted_desc_def)

lemma find_sorted_desc_descending: "sorted (rev (map doc_id (find_sorted_desc st)))"
  by (simp add: find_sorted_desc_def rev_map)

lemma find_sorted_desc_two:
  assumes "orders st = [a, b]" and "doc_id a < doc_id b"
  shows "find_sorted_desc st = [b, a]"
  using assms by (simp add: find_sorted_desc_def)

lemma create_order_orders:
  "orders (snd (create_order e p st)) = orders st
   \<or> orders (snd (create_order e p st)) = orders st @ [with_id (next_oid e)
        \<lparr>new_user_id = user_id p, new_items = items p, new_total = total_amount p,
         new_created_at = now st + http_time e\<rparr>]"
proof (cases "fst (fetch_user e (user_id p) st)")
  case (Inl ex)
  then show ?thesis
    by (simp add: create_order_lookup_error fetch_user_orders)
next
  case (Inr u)
  show ?thesis
  proof (cases "u = JNull")
    case True
    with Inr show ?thesis
      by (simp add: create_order_not_found fetch_user_orders)
  next
    case False
    show ?thesis
    proof (cases "ObjectId (user_id p)")
      case x: (Inl x)
      from create_order_invalid_id [OF Inr False x] show ?thesis
        by (simp add: fetch_user_orders)
    next
      case i: (Inr i)
      show ?thesis
      proof (cases "next_oid e \<in> doc_id ` set (orders st)")
        case True
        from create_order_duplicate [OF Inr False i True] show ?thesis
          by simp
      next
        case fresh: False
        from create_order_inserts [OF Inr False i fresh] show ?thesis
          by simp
      qed
    qed
  qed
qed

lemma post_orders_keeps_valid_docs:
  assumes "\<forall>d \<in> set (orders st). list_all OrderItem_valid (doc_items d)"
  shows "\<forall>d \<in> set (orders (snd (post_orders e p st))). list_all OrderItem_valid (doc_items d)"
proof (cases "OrderCreate_valid p")
  case False
  with assms show ?thesis
    by (simp add: post_orders_def)
next
  case True
  then have "list_all OrderItem_valid (items p)"
    by (simp add: OrderCreate_valid_def)
  with assms create_order_orders [of e p st] True show ?thesis
    by (auto simp: post_orders_def with_id_def)
qed

text \<open>
  Claim C8, as amended. When every stored document has valid items (as every
  document placed by \<^verbatim>\<open>POST /orders\<close> has), \<^verbatim>\<open>GET /orders\<close> returns the serialisation
  of every document of the collection, each once, by descending identifier, and leaves
  the collection as it was. After inserting A and then B, the listing is B, A when the
  identifier of A is smaller than the identifier of B.
\<close>

theorem list_orders_by_descending_id:
  assumes "\<forall>d \<in> set (orders st). list_all OrderItem_valid (doc_items d)"
  shows "\<exists>outs. fst (list_orders e st) = Inr outs
      \<and> map Inr outs = map (\<lambda>d. serialize_order (Some d)) (find_sorted_desc st)
      \<and> mset (find_sorted_desc st) = mset (orders st)
      \<and> sorted (rev (map doc_id (find_sorted_desc st)))
      \<and> orders (snd (list_orders e st)) = orders st
      \<and> (\<forall>a b. orders st = [a, b] \<longrightarrow> doc_id a < doc_id b \<longrightarrow>
            map Inr outs = [serialize_order (Some b), serialize_order (Some a)])"
proof -
  have "\<forall>d \<in> set (find_sorted_desc st). list_all OrderItem_valid (doc_items d)"
    using assms by (simp add: find_sorted_desc_def)
  from serialize_all_valid [OF this, of "[]"]
  obtain outs where o: "serialize_all (find_sorted_desc st) [] = Inr outs"
    and m: "map Inr outs = map (\<lambda>d. serialize_order (Some d)) (find_sorted_desc st)"
    by auto
  have two: "map Inr outs = [serialize_order (Some b), serialize_order (Some a)]"
    if "orders st = [a, b]" "doc_id a < doc_id b" for a b
    using m find_sorted_desc_two [OF that] by simp
  have r: "fst (list_orders e st) = Inr outs"
    using o by (simp add: list_orders_def)
  have u: "orders (snd (list_orders e st)) = orders st"
    by (simp add: list_orders_def)
  show ?thesis
  proof (intro exI [of _ outs] conjI allI impI)
    show "fst (list_orders e st) = Inr outs" by (rule r)
    show "map Inr outs = map (\<lambda>d. serialize_order (Some d)) (find_sorted_desc st)" by (rule m)
    show "mset (find_sorted_desc st) = mset (orders st)" by (rule find_sorted_desc_mset)
    show "sorted (rev (map doc_id (find_sorted_desc st)))" by (rule find_sorted_desc_descending)
    show "orders (snd (list_orders e st)) = orders st" by (rule u)
    show "map Inr outs = [serialize_order (Some b), serialize_order (Some a)]"
      if "orders st = [a, b]" "doc_id a < doc_id b" for a b
      using that by (rule two)
  qed
qed

section \<open>Two orders placed one after the other\<close>

lemma oid_late_less: "oid_late < oid_early"
  by (simp add: oid_late_def oid_early_def)

lemma oid_late_neq: "oid_late \<noteq> oid_early"
  using oid_late_less by simp

lemma place_widget:
  assumes "i \<notin> doc_id ` set (orders st)"
  shows "snd (post_orders (env_live i) (widget_order ann_hex) st) =
     st\<lparr>requests := requests st @ [request_target ann_hex],
        now := now st + 9,
        orders := orders st @ [widget_doc i (now st + 5)]\<rparr>"
proof -
  have g: "fst (fetch_user (env_live i) (user_id (widget_order ann_hex)) st) = Inr ann_json"
    by (simp add: widget_order_fields fetch_user_live_ann)
  have p: "ObjectId (user_id (widget_order ann_hex)) = Inr 0x507f1f77bcf86cd799439011"
    by (simp add: widget_order_fields ObjectId_ann_hex)
  have f: "next_oid (env_live i) \<notin> doc_id ` set (orders st)"
    using assms by (simp add: env_live_def)
  from create_order_inserts [OF g ann_json_not_null p f] ann_hex_valid
  show ?thesis
    by (simp add: post_orders_def widget_order_fields env_live_def with_id_def widget_doc_def)
qed

lemma st_wrapped_orders: "orders st_wrapped = [widget_doc oid_early 105, widget_doc oid_late 114]"
proof -
  have a: "snd (post_orders (env_live oid_early) (widget_order ann_hex) st0) =
      \<lparr>orders = [widget_doc oid_early 105], requests = [request_target ann_hex], now = 109\<rparr>"
    using place_widget [of oid_early st0] by (simp add: st0_def)
  have "oid_late \<notin> doc_id ` set (orders
      \<lparr>orders = [widget_doc oid_early 105], requests = [request_target ann_hex], now = 109\<rparr>)"
    using oid_late_neq by (simp add: widget_doc_def)
  from place_widget [OF this] show ?thesis
    by (simp add: st_wrapped_def a)
qed

lemma st_ascending_orders: "orders st_ascending = [widget_doc oid_late 105, widget_doc oid_early 114]"
proof -
  have a: "snd (post_orders (env_live oid_late) (widget_order ann_hex) st0) =
      \<lparr>orders = [widget_doc oid_late 105], requests = [request_target ann_hex], now = 109\<rparr>"
    using place_widget [of oid_late st0] by (simp add: st0_def)
  have "oid_early \<notin> doc_id ` set (orders
      \<lparr>orders = [widget_doc oid_late 105], requests = [request_target ann_hex], now = 109\<rparr>)"
    using oid_late_neq by (simp add: widget_doc_def)
  from place_widget [OF this] show ?thesis
    by (simp add: st_ascending_def a)
qed

lemma serialize_widget_doc: "serialize_order (Some (widget_doc i t)) = Inr (widget_out i t)"
  by (simp add: serialize_order_def widget_doc_def widget_out_def OrderItem_valid_def)

theorem list_orders_by_descending_id_witness:
  "orders st_ascending = [widget_doc oid_late 105, widget_doc oid_early 114]
   \<and> list_all OrderItem_valid (doc_items (widget_doc oid_late 105))
   \<and> list_all OrderItem_valid (doc_items (widget_doc oid_early 114))
   \<and> doc_id (widget_doc oid_late 105) < doc_id (widget_doc oid_early 114)
   \<and> fst (list_orders (env_live 0) st_ascending) = Inr [widget_out oid_early 114, widget_out oid_late 105]
   \<and> orders (snd (list_orders (env_live 0) st_ascending)) = orders st_ascending"
proof -
  have v: "list_all OrderItem_valid (doc_items (widget_doc i t))" for i t
    by (simp add: widget_doc_def OrderItem_valid_def)
  have h: "\<forall>d \<in> set (orders st_ascending). list_all OrderItem_valid (doc_items d)"
    by (simp add: st_ascending_orders v)
  have l: "doc_id (widget_doc oid_late 105) < doc_id (widget_doc oid_early 114)"
    using oid_late_less by (simp add: widget_doc_def)
  from list_orders_by_descending_id [OF h, of "env_live 0"]
  obtain outs where r: "fst (list_orders (env_live 0) st_ascending) = Inr outs"
    and u: "orders (snd (list_orders (env_live 0) st_ascending)) = orders st_ascending"
    and two: "\<forall>a b. orders st_ascending = [a, b] \<longrightarrow> doc_id a < doc_id b \<longrightarrow>
            map Inr outs = [serialize_order (Some b), serialize_order (Some a)]"
    by (elim exE conjE)
  from two st_ascending_orders l
  have "map Inr outs = [serialize_order (Some (widget_doc oid_early 114)),
                        serialize_order (Some (widget_doc oid_late 105))]"
    by blast
  then have "(map Inr outs :: (exn + OrderOut) list)
               = map Inr [widget_out oid_early 114, widget_out oid_late 105]"
    by (simp add: serialize_widget_doc)
  then have "outs = [widget_out oid_early 114, widget_out oid_late 105]"
    by (simp only: inj_map_eq_map [OF inj_Inr])
  with r u st_ascending_orders v l show ?thesis
    by simp
qed

theorem list_orders_by_descending_id_counterexample:
  "orders st_wrapped = [widget_doc oid_early 105, widget_doc oid_late 114]
   \<and> doc_created_at (widget_doc oid_early 105) < doc_created_at (widget_doc oid_late 114)
   \<and> fst (list_orders (env_live 0) st_wrapped) = Inr [widget_out oid_early 105, widget_out oid_late 114]"
proof -
  have "\<not> oid_early \<le> oid_late"
    using oid_late_less by simp
  then have "find_sorted_desc st_wrapped = [widget_doc oid_early 105, widget_doc oid_late 114]"
    by (simp add: find_sorted_desc_def st_wrapped_orders widget_doc_def)
  then have "fst (list_orders (env_live 0) st_wrapped) = Inr [widget_out oid_early 105, widget_out oid_late 114]"
    by (simp add: list_orders_def serialize_widget_doc)
  then show ?thesis
    by (simp add: st_wrapped_orders widget_doc_def)
qed

section \<open>Rendering an identifier\<close>

lemma hex_digits_example: "hex_digits 2 26 = ''1a'' \<and> hex_digits 3 255 = ''0ff''"
  by (simp add: numeral_2_eq_2 numeral_3_eq_3 hex_char_def)

end
